theory Spec2Isabelle
  imports Complex_Main "HOL-Library.Char_ord" "HOL-Library.List_Lexorder" "HOL-Library.Product_Lexorder"
begin

section \<open>Text primitives\<close>

text \<open>
  Python strings are modelled as \<open>string\<close> (lists of 8-bit characters). The character
  classes below are the ASCII part of Python's \<open>str.isspace\<close>, \<open>\d\<close>, \<open>[A-Z]\<close>,
  \<open>str.isalpha\<close> and \<open>\w\<close>; the model follows the source on ASCII text.
\<close>

definition is_digit :: "char \<Rightarrow> bool" where
  "is_digit c = (c \<in> set ''0123456789'')"

definition is_AZ :: "char \<Rightarrow> bool" where
  "is_AZ c = (c \<in> set ''ABCDEFGHIJKLMNOPQRSTUVWXYZ'')"

definition is_az :: "char \<Rightarrow> bool" where
  "is_az c = (c \<in> set ''abcdefghijklmnopqrstuvwxyz'')"

definition is_alpha :: "char \<Rightarrow> bool" where
  "is_alpha c = (is_AZ c \<or> is_az c)"

definition is_word :: "char \<Rightarrow> bool" where
  "is_word c = (is_alpha c \<or> is_digit c \<or> c = CHR ''_'')"

definition newline :: char where
  "newline = CHR 0x0A"

definition is_space :: "char \<Rightarrow> bool" where
  "is_space c = (c \<in> set [CHR 0x09, CHR 0x0A, CHR 0x0B, CHR 0x0C, CHR 0x0D,
                            CHR 0x1C, CHR 0x1D, CHR 0x1E, CHR 0x1F, CHR 0x20])"

definition strip :: "string \<Rightarrow> string" where
  "strip s = rev (dropWhile is_space (rev (dropWhile is_space s)))"

definition upper_char :: "char \<Rightarrow> char" where
  "upper_char c =
     (case map_of (zip ''abcdefghijklmnopqrstuvwxyz'' ''ABCDEFGHIJKLMNOPQRSTUVWXYZ'') c of
        Some u \<Rightarrow> u | None \<Rightarrow> c)"

definition upper :: "string \<Rightarrow> string" where
  "upper s = map upper_char s"

text \<open>\<open>$\<close> without MULTILINE: the end of the text, or just before a final newline.\<close>

definition at_end :: "string \<Rightarrow> bool" where
  "at_end r = (r = [] \<or> r = [newline])"

text \<open>\<open>g.lstrip('0') or '0'\<close>\<close>

definition lstrip_zeros :: "string \<Rightarrow> string" where
  "lstrip_zeros g = (let t = dropWhile (\<lambda>c. c = CHR ''0'') g in if t = [] then ''0'' else t)"

section \<open>Identifier normalization (ai_matcher.normalize_product_id)\<close>

text \<open>\<open>re.match(r'^K002(\d{3})(-\d{2})(?:[-A-Z]*)$', cleaned)\<close>: groups 1 and 2.\<close>

definition k002_match :: "string \<Rightarrow> (string \<times> string) option" where
  "k002_match s =
     (let g1 = take 3 (drop 4 s); g2 = take 3 (drop 7 s) in
      if take 4 s = ''K002'' \<and> length g1 = 3 \<and> list_all is_digit g1
         \<and> length g2 = 3 \<and> take 1 g2 = ''-'' \<and> list_all is_digit (drop 1 g2)
         \<and> at_end (dropWhile (\<lambda>c. c = CHR ''-'' \<or> is_AZ c) (drop 10 s))
      then Some (g1, g2) else None)"

text \<open>\<open>(\d+)(-\d{2})(?:[A-Z]*)$\<close> tried at the head of the text. The greedy digit run is
  the only candidate for group 1: a shorter run would be followed by a digit, not by the hyphen.\<close>

definition suffix_here :: "string \<Rightarrow> (string \<times> string) option" where
  "suffix_here s =
     (let g1 = takeWhile is_digit s; r = dropWhile is_digit s; g2 = take 3 r in
      if g1 \<noteq> [] \<and> length g2 = 3 \<and> take 1 g2 = ''-'' \<and> list_all is_digit (drop 1 g2)
         \<and> at_end (dropWhile is_AZ (drop 3 r))
      then Some (g1, g2) else None)"

text \<open>\<open>re.match(r'^.*?(\d+)(-\d{2})(?:[A-Z]*)$', cleaned)\<close>: the lazy prefix grows one
  character at a time, and \<open>.\<close> does not match a newline.\<close>

fun suffix_match :: "string \<Rightarrow> (string \<times> string) option" where
  "suffix_match [] = None"
| "suffix_match (c # cs) =
     (case suffix_here (c # cs) of
        Some g \<Rightarrow> Some g
      | None \<Rightarrow> if c = newline then None else suffix_match cs)"

text \<open>\<open>re.match(r'^.*?(\d+)', cleaned)\<close>: group 1.\<close>

fun core_match :: "string \<Rightarrow> string option" where
  "core_match [] = None"
| "core_match (c # cs) =
     (if is_digit c then Some (takeWhile is_digit (c # cs))
      else if c = newline then None else core_match cs)"

text \<open>\<open>re.findall(r'\d+', cleaned)\<close>: the maximal digit runs, left to right.\<close>

function digit_runs :: "string \<Rightarrow> string list" where
  "digit_runs [] = []"
| "digit_runs (c # cs) =
     (if is_digit c then takeWhile is_digit (c # cs) # digit_runs (dropWhile is_digit cs)
      else digit_runs cs)"
  by pat_completeness auto
termination
  by (relation "measure length") (auto simp: length_dropWhile_le less_Suc_eq_le)

text \<open>\<open>max(numeric_parts, key=len)\<close>: the first run of greatest length.\<close>

definition longest :: "string \<Rightarrow> string list \<Rightarrow> string" where
  "longest r rs = foldl (\<lambda>m x. if length m < length x then x else m) r rs"

definition normalize_product_id :: "string \<Rightarrow> string" where
  "normalize_product_id product_id =
     (if product_id = [] \<or> product_id = ''N/A'' then []
      else let cleaned = upper (strip product_id) in
        case k002_match cleaned of
          Some (g1, g2) \<Rightarrow> lstrip_zeros g1 @ g2
        | None \<Rightarrow>
           (case suffix_match cleaned of
              Some (g1, g2) \<Rightarrow> lstrip_zeros g1 @ g2
            | None \<Rightarrow>
               (case core_match cleaned of
                  Some g1 \<Rightarrow> lstrip_zeros g1
                | None \<Rightarrow>
                   (case digit_runs cleaned of
                      [] \<Rightarrow> cleaned
                    | r # rs \<Rightarrow> lstrip_zeros (longest r rs)))))"

section \<open>Catalog entries, match results and the outside world\<close>

text \<open>A catalog entry as \<open>load_reference_database\<close> builds it: both keys present, both strings.\<close>

record product =
  product_id :: string
  description :: string

text \<open>Values of Python's dynamic types that a decoded JSON document can hold. A float is
  represented by the number it denotes; the matcher only stores and returns such values.\<close>

datatype pyval =
    PyNone
  | PyBool bool
  | PyInt int
  | PyFloat rat
  | PyStr string
  | PyList "pyval list"
  | PyDict "(string \<times> pyval) list"

text \<open>The MatchResult dictionary. The first three fields can carry whatever a model
  response held, so they are dynamically typed.\<close>

record match_result =
  matched_id :: pyval
  confidence :: pyval
  reasoning :: pyval
  matched_description :: "string option"

datatype py_error =
    PyException string
  | AttributeError string

text \<open>\<open>str(e)\<close>\<close>

fun error_text :: "py_error \<Rightarrow> string" where
  "error_text (PyException m) = m"
| "error_text (AttributeError m) = m"

text \<open>What \<open>build_matching_prompt\<close> puts into the prompt text: the two extracted fields, the
  first 500 catalog entries and the threshold.\<close>

record prompt =
  prompt_id :: string
  prompt_desc :: string
  limited_db :: "product list"
  threshold :: rat

text \<open>The outcome of \<open>json.loads\<close> (Python's standard library).\<close>

datatype loads_outcome =
    Decoded pyval
  | JSONDecodeError string
  | OtherError string

text \<open>
  Everything outside the repository that matching depends on: the module-level
  \<open>GEMINI_API_KEY\<close> read from the process environment, the remote model
  (\<open>genai.GenerativeModel(...).generate_content(prompt).text\<close>, \<open>Inl\<close> when any of it raises, with
  the exception's text) and the JSON decoder.
\<close>

record world =
  GEMINI_API_KEY :: "string option"
  generate_content :: "prompt \<Rightarrow> string + string"
  json_loads :: "string \<Rightarrow> loads_outcome"

text \<open>\<open>d.get(k, default)\<close> on a dictionary of strings, and on a decoded JSON object.\<close>

definition get_str :: "(string \<rightharpoonup> string) \<Rightarrow> string \<Rightarrow> string \<Rightarrow> string" where
  "get_str d k dflt = (case d k of None \<Rightarrow> dflt | Some v \<Rightarrow> v)"

definition get_val :: "(string \<times> pyval) list \<Rightarrow> string \<Rightarrow> pyval \<Rightarrow> pyval" where
  "get_val d k dflt = (case map_of d k of None \<Rightarrow> dflt | Some v \<Rightarrow> v)"

definition starts_with :: "string \<Rightarrow> string \<Rightarrow> bool" where
  "starts_with p s = (take (length p) s = p)"

definition NO_MATCH :: pyval where
  "NO_MATCH = PyStr ''NO_MATCH''"

section \<open>The simplicity tie-break (ai_matcher.select_simplest_product_id)\<close>

text \<open>\<open>re.match(r'^K002\d{3}-\d{2}[A-Z-]+', pid)\<close>\<close>

definition k002_extra :: "string \<Rightarrow> bool" where
  "k002_extra pid =
     (take 4 pid = ''K002'' \<and> length (take 3 (drop 4 pid)) = 3 \<and> list_all is_digit (take 3 (drop 4 pid))
      \<and> take 1 (drop 7 pid) = ''-''
      \<and> length (take 2 (drop 8 pid)) = 2 \<and> list_all is_digit (take 2 (drop 8 pid))
      \<and> list_ex (\<lambda>c. is_AZ c \<or> c = CHR ''-'') (take 1 (drop 10 pid)))"

text \<open>\<open>re.match(r'^KRUSE\d+[A-Z-]+', pid)\<close>: after the whole digit run comes a letter or hyphen.\<close>

definition kruse_extra :: "string \<Rightarrow> bool" where
  "kruse_extra pid =
     (take 5 pid = ''KRUSE'' \<and> takeWhile is_digit (drop 5 pid) \<noteq> []
      \<and> list_ex (\<lambda>c. is_AZ c \<or> c = CHR ''-'') (take 1 (dropWhile is_digit (drop 5 pid))))"

definition complexity_score :: "string \<Rightarrow> nat \<times> nat \<times> nat \<times> string" where
  "complexity_score pid0 =
     (let pid = upper pid0;
          has_extra_suffix = (if k002_extra pid then 1 else if kruse_extra pid then 1 else 0);
          is_not_kruse = (if starts_with ''KRUSE'' pid then 0 else 1)
      in (has_extra_suffix, is_not_kruse, length pid, pid))"

definition score_of :: "product \<Rightarrow> nat \<times> nat \<times> nat \<times> string" where
  "score_of p = complexity_score (product_id p)"

text \<open>The tail of the function, after the hard-coded pairs: sort by score (Python's
  \<open>sorted\<close> is stable, as \<open>sort_key\<close> is) and accept the head only if it alone has no extra suffix.\<close>

definition clear_winner :: "product list \<Rightarrow> product option" where
  "clear_winner matching_products =
     (case sort_key score_of matching_products of
        [] \<Rightarrow> None
      | simplest # others \<Rightarrow>
          if fst (score_of simplest) = 0
          then (if filter (\<lambda>p. fst (score_of p) = 0) others = [] then Some simplest else None)
          else None)"

definition select_simplest_product_id :: "product list \<Rightarrow> product option" where
  "select_simplest_product_id matching_products =
     (if matching_products = [] then None
      else if length matching_products = 1 then Some (hd matching_products)
      else
        let product_ids = map (\<lambda>p. upper (product_id p)) matching_products;
            first_kruse01 = (if ''KRUSE01'' \<in> set product_ids \<and> ''CG00001'' \<in> set product_ids
                             then find (\<lambda>p. upper (product_id p) = ''KRUSE01'') matching_products
                             else None);
            kruse_products = filter (\<lambda>p. starts_with ''KRUSE'' (upper (product_id p))) matching_products;
            cg_products = filter (\<lambda>p. starts_with ''CG'' (upper (product_id p))) matching_products
        in case first_kruse01 of
             Some p \<Rightarrow> Some p
           | None \<Rightarrow>
               if kruse_products \<noteq> [] \<and> cg_products \<noteq> []
                  \<and> length matching_products = length kruse_products + length cg_products
                  \<and> length kruse_products = 1
               then Some (hd kruse_products)
               else if ''KRUSE5'' \<in> set product_ids \<and> ''KRUSE05'' \<in> set product_ids then None
               else clear_winner matching_products)"

section \<open>Lenient parsing of a model response (ai_matcher.parse_gemini_matching_response)\<close>

definition dquote :: char where
  "dquote = CHR 0x22"

definition fence :: string where
  "fence = [CHR 0x60, CHR 0x60, CHR 0x60]"

text \<open>\<open>\s*\n\<close> at the head of the text: the greedy whitespace run gives back just enough to end
  on its last newline. Returns what follows the match.\<close>

definition ws_newline :: "string \<Rightarrow> string option" where
  "ws_newline t =
     (let w = takeWhile is_space t in
      if newline \<in> set w
      then Some (drop (length w - length (takeWhile (\<lambda>c. c \<noteq> newline) (rev w))) t)
      else None)"

text \<open>\<open>re.sub(r'^```(?:json)?\s*\n', '', cleaned)\<close>: the optional word is tried first, then skipped.\<close>

definition strip_open_fence :: "string \<Rightarrow> string" where
  "strip_open_fence s =
     (if starts_with fence s then
        let r = drop 3 s;
            with_json = (if starts_with ''json'' r then ws_newline (drop 4 r) else None)
        in case with_json of
             Some rest \<Rightarrow> rest
           | None \<Rightarrow> (case ws_newline r of Some rest \<Rightarrow> rest | None \<Rightarrow> s)
      else s)"

text \<open>\<open>re.sub(r'\n```\s*$', '', cleaned)\<close>: the leftmost newline-fence followed by whitespace
  only; the match runs to the end of the text.\<close>

fun strip_close_fence :: "string \<Rightarrow> string" where
  "strip_close_fence [] = []"
| "strip_close_fence (c # cs) =
     (if starts_with (newline # fence) (c # cs) \<and> list_all is_space (drop 4 (c # cs)) then []
      else c # strip_close_fence cs)"

text \<open>\<open>"matched_id"\s*:\s*"([^"]+)"\<close> tried at the head of the text: group 1.\<close>

definition matched_id_here :: "string \<Rightarrow> string option" where
  "matched_id_here s =
     (let key = dquote # ''matched_id'' @ [dquote] in
      if starts_with key s then
        let r = dropWhile is_space (drop (length key) s) in
        if take 1 r = '':'' then
          let r2 = dropWhile is_space (drop 1 r) in
          if take 1 r2 = [dquote] then
            let g = takeWhile (\<lambda>c. c \<noteq> dquote) (drop 1 r2);
                after = dropWhile (\<lambda>c. c \<noteq> dquote) (drop 1 r2)
            in if g \<noteq> [] \<and> after \<noteq> [] then Some g else None
          else None
        else None
      else None)"

text \<open>\<open>re.search\<close>: the first start position, left to right, at which the pattern matches.\<close>

fun re_search :: "(string \<Rightarrow> 'a option) \<Rightarrow> string \<Rightarrow> 'a option" where
  "re_search f [] = f []"
| "re_search f (c # cs) = (case f (c # cs) of Some g \<Rightarrow> Some g | None \<Rightarrow> re_search f cs)"

text \<open>The type name in the message of \<open>result.get\<close> on a value that is not a dictionary.\<close>

fun type_name :: "pyval \<Rightarrow> string" where
  "type_name PyNone = ''NoneType''"
| "type_name (PyBool _) = ''bool''"
| "type_name (PyInt _) = ''int''"
| "type_name (PyFloat _) = ''float''"
| "type_name (PyStr _) = ''str''"
| "type_name (PyList _) = ''list''"
| "type_name (PyDict _) = ''dict''"

text \<open>The lookup loop: the description of the first entry whose id equals \<open>matched_id\<close>.\<close>

definition lookup_description :: "pyval \<Rightarrow> product list \<Rightarrow> string option" where
  "lookup_description mid reference_database =
     (case find (\<lambda>entry. PyStr (product_id entry) = mid) reference_database of
        Some entry \<Rightarrow> Some (description entry)
      | None \<Rightarrow> None)"

text \<open>Only \<open>json.JSONDecodeError\<close> is caught here; anything else leaves the function.\<close>

definition parse_gemini_matching_response ::
    "(string \<Rightarrow> loads_outcome) \<Rightarrow> string \<Rightarrow> product list \<Rightarrow> py_error + match_result" where
  "parse_gemini_matching_response loads response_text reference_database =
     (let cleaned0 = strip response_text;
          cleaned = (if starts_with fence cleaned0
                     then strip_close_fence (strip_open_fence cleaned0) else cleaned0)
      in case loads cleaned of
           Decoded (PyDict result) \<Rightarrow>
             (let mid = get_val result ''matched_id'' NO_MATCH;
                  conf = get_val result ''confidence'' (PyFloat 0);
                  reas = get_val result ''reasoning'' (PyStr ''No reasoning provided'')
              in Inr \<lparr>matched_id = mid, confidence = conf, reasoning = reas,
                      matched_description =
                        (if mid \<noteq> NO_MATCH then lookup_description mid reference_database else None)\<rparr>)
         | Decoded v \<Rightarrow>
             Inl (AttributeError ([CHR 0x27] @ type_name v @ [CHR 0x27] @ '' object has no attribute '' @ [CHR 0x27] @ ''get'' @ [CHR 0x27]))
         | OtherError m \<Rightarrow> Inl (PyException m)
         | JSONDecodeError m \<Rightarrow>
             (case re_search matched_id_here response_text of
                Some g \<Rightarrow>
                  Inr \<lparr>matched_id = PyStr g, confidence = PyNone,
                       reasoning = PyStr ''Parsed from malformed JSON'', matched_description = None\<rparr>
              | None \<Rightarrow>
                  Inr \<lparr>matched_id = NO_MATCH, confidence = PyNone,
                       reasoning = PyStr (''Failed to parse Gemini response: '' @ m),
                       matched_description = None\<rparr>))"

section \<open>AI-assisted matching (ai_matcher.match_product_with_gemini)\<close>

definition build_matching_prompt :: "string \<Rightarrow> string \<Rightarrow> product list \<Rightarrow> rat \<Rightarrow> prompt" where
  "build_matching_prompt extracted_id extracted_desc reference_database confidence_threshold =
     \<lparr>prompt_id = extracted_id, prompt_desc = extracted_desc,
      limited_db = take 500 reference_database, threshold = confidence_threshold\<rparr>"

text \<open>\<open>if not GEMINI_API_KEY\<close>: unset or empty.\<close>

definition key_configured :: "world \<Rightarrow> bool" where
  "key_configured w = (case GEMINI_API_KEY w of None \<Rightarrow> False | Some k \<Rightarrow> k \<noteq> [])"

text \<open>The result is paired with the prompts sent to the model, in order.\<close>

definition match_product_with_gemini ::
    "world \<Rightarrow> (string \<rightharpoonup> string) \<Rightarrow> product list \<Rightarrow> rat \<Rightarrow> (py_error + match_result) \<times> prompt list" where
  "match_product_with_gemini w extracted_product reference_database confidence_threshold =
     (if \<not> key_configured w
      then (Inl (PyException ''GEMINI_API_KEY environment variable not set''), [])
      else if reference_database = []
      then (Inr \<lparr>matched_id = NO_MATCH, confidence = PyNone,
                 reasoning = PyStr ''Reference database is empty'', matched_description = None\<rparr>, [])
      else
        let extracted_id = get_str extracted_product ''product_id'' ''N/A'';
            extracted_desc = get_str extracted_product ''description'' ''N/A'';
            p = build_matching_prompt extracted_id extracted_desc reference_database confidence_threshold;
            failed = (\<lambda>m. Inr \<lparr>matched_id = NO_MATCH, confidence = PyNone,
                                reasoning = PyStr (''Error calling Gemini API: '' @ m),
                                matched_description = None\<rparr>)
        in case generate_content w p of
             Inl m \<Rightarrow> (failed m, [p])
           | Inr response_text \<Rightarrow>
               (case parse_gemini_matching_response (json_loads w) response_text reference_database of
                  Inl e \<Rightarrow> (failed (error_text e), [p])
                | Inr result \<Rightarrow> (Inr result, [p])))"

section \<open>Deterministic matching (ai_matcher.match_product_by_id)\<close>

text \<open>The search loop: catalog entries whose normalized id equals the extracted token, or the
  token extended by \<open>-01\<close>, in catalog order.\<close>

definition matching_products :: "string \<Rightarrow> product list \<Rightarrow> product list" where
  "matching_products normalized_extracted reference_database =
     filter (\<lambda>ref_product.
               let normalized_ref = normalize_product_id (product_id ref_product)
               in normalized_extracted = normalized_ref \<or> normalized_extracted @ ''-01'' = normalized_ref)
            reference_database"

text \<open>\<open>str.isdigit\<close>\<close>

definition isdigit :: "string \<Rightarrow> bool" where
  "isdigit s = (s \<noteq> [] \<and> list_all is_digit s)"

definition id_match :: "string \<Rightarrow> string \<Rightarrow> string \<Rightarrow> product \<Rightarrow> rat \<Rightarrow> match_result" where
  "id_match label extracted_id normalized_extracted matched conf =
     \<lparr>matched_id = PyStr (product_id matched), confidence = PyFloat conf,
      reasoning = PyStr (label @ extracted_id @ '' -> '' @ product_id matched
                         @ '' (normalized: '' @ normalized_extracted @ '')''),
      matched_description = Some (description matched)\<rparr>"

definition match_product_by_id ::
    "world \<Rightarrow> (string \<rightharpoonup> string) \<Rightarrow> product list \<Rightarrow> rat \<Rightarrow> bool
       \<Rightarrow> (py_error + match_result) \<times> prompt list" where
  "match_product_by_id w extracted_product reference_database confidence_threshold use_ai_fallback =
     (if reference_database = []
      then (Inr \<lparr>matched_id = NO_MATCH, confidence = PyFloat 0,
                 reasoning = PyStr ''Reference database is empty'', matched_description = None\<rparr>, [])
      else
        let extracted_id = get_str extracted_product ''product_id'' ''N/A'';
            normalized_extracted = normalize_product_id extracted_id
        in
        if normalized_extracted = [] \<or> extracted_id = ''N/A'' then
          (if use_ai_fallback
           then match_product_with_gemini w extracted_product reference_database confidence_threshold
           else (Inr \<lparr>matched_id = NO_MATCH, confidence = PyFloat 0,
                      reasoning = PyStr (''Invalid extracted product ID: '' @ extracted_id
                                         @ '' (AI fallback disabled)''),
                      matched_description = None\<rparr>, []))
        else
          let candidates = matching_products normalized_extracted reference_database in
          if length candidates = 0 then
            (Inr \<lparr>matched_id = NO_MATCH, confidence = PyFloat 0,
                  reasoning = PyStr (''No match found for normalized ID: '' @ normalized_extracted
                                     @ '' (from '' @ extracted_id @ '')''),
                  matched_description = None\<rparr>, [])
          else if length candidates = 1 then
            (Inr (id_match ''ID match: '' extracted_id normalized_extracted (hd candidates) 1), [])
          else
            (case select_simplest_product_id candidates of
               Some simplest_match \<Rightarrow>
                 (Inr (id_match ''ID match (simplest): '' extracted_id normalized_extracted simplest_match 1), [])
             | None \<Rightarrow>
                 if isdigit normalized_extracted \<and> length normalized_extracted \<le> 2 \<and> use_ai_fallback
                 then match_product_with_gemini w extracted_product candidates confidence_threshold
                 else (Inr (id_match ''ID match (multiple candidates): '' extracted_id normalized_extracted
                              (hd candidates) (9 / 10)), [])))"

section \<open>Prices\<close>

text \<open>
  A price read by the cost cleaners has at most five integer digits and either no or exactly
  two decimals, so it is a whole number of cents below \<open>10^7\<close>. Python holds it as a float
  (\<open>float(text)\<close>), compares it with the bounds and prints it with \<open>:.2f\<close>; on such values the
  comparisons and the printed text are those of the exact amount, which the model keeps as a
  natural number of cents.
\<close>

definition digit_value :: "char \<Rightarrow> nat" where
  "digit_value c = length (takeWhile (\<lambda>d. d \<noteq> c) ''0123456789'')"

definition nat_of_digits :: "string \<Rightarrow> nat" where
  "nat_of_digits ds = foldl (\<lambda>a c. 10 * a + digit_value c) 0 ds"

definition digit_char :: "nat \<Rightarrow> char" where
  "digit_char d = ''0123456789'' ! (d mod 10)"

function show_nat :: "nat \<Rightarrow> string" where
  "show_nat n = (if n < 10 then [digit_char n] else show_nat (n div 10) @ [digit_char n])"
  by pat_completeness auto
termination
  by (relation "measure id") auto

text \<open>\<open>f"{value:.2f}"\<close> on an amount of \<open>c\<close> cents.\<close>

definition format_cents :: "nat \<Rightarrow> string" where
  "format_cents c = show_nat (c div 100) @ ''.'' @ [digit_char (c mod 100 div 10), digit_char (c mod 100)]"

text \<open>The value, in cents, of an integer part and an optional two-digit fraction.\<close>

definition cents_of :: "string \<Rightarrow> string option \<Rightarrow> nat" where
  "cents_of whole decimals = 100 * nat_of_digits whole + (case decimals of None \<Rightarrow> 0 | Some f \<Rightarrow> nat_of_digits f)"

text \<open>\<open>(?:\.\d{2})?\<close> at the head of the text: the two digits, when a point and two digits follow.\<close>

definition two_decimals :: "string \<Rightarrow> string option" where
  "two_decimals r =
     (if take 1 r = ''.'' \<and> length (take 2 (drop 1 r)) = 2 \<and> list_all is_digit (take 2 (drop 1 r))
      then Some (take 2 (drop 1 r)) else None)"

section \<open>Cost cleaning of the AI-assisted extractor (gemini_parser.clean_cost)\<close>



section \<open>The base vendor parser (vendors/base_parser.py)\<close>

text \<open>\<open>\$\s*(\d{1,4}(?:\.\d{2})?)\<close> tried at the head of the text.\<close>

definition dollar_price_here :: "string \<Rightarrow> (string \<times> string option) option" where
  "dollar_price_here s =
     (if take 1 s = ''$'' then
        let r1 = dropWhile is_space (drop 1 s);
            whole = take 4 (takeWhile is_digit r1)
        in if whole = [] then None else Some (whole, two_decimals (drop (length whole) r1))
      else None)"

text \<open>The sanity check rejects a price over 1000; there is no lower bound.\<close>

definition BaseParser_clean_cost :: "string \<Rightarrow> string option" where
  "BaseParser_clean_cost cost_str =
     (if cost_str = [] then None
      else if CHR ''$'' \<notin> set cost_str then None
      else case re_search dollar_price_here cost_str of
             None \<Rightarrow> None
           | Some (whole, decimals) \<Rightarrow>
               let price_float = cents_of whole decimals in
               if price_float > 100000 then None
               else Some (''$'' @ format_cents price_float))"

definition alpha_count :: "string \<Rightarrow> nat" where
  "alpha_count s = length (filter is_alpha s)"

definition BaseParser_is_valid_description :: "string \<Rightarrow> bool" where
  "BaseParser_is_valid_description d = (d \<noteq> [] \<and> \<not> alpha_count d < 2)"

text \<open>A LineItem: the dictionary with keys \<open>product_id\<close>, \<open>description\<close> and \<open>cost\<close>.\<close>

record line_item =
  item_id :: string
  item_description :: string
  item_cost :: string

text \<open>A table cell is \<open>None\<close> or a string; \<open>str(cell).strip() if cell else ''\<close>.\<close>

definition clean_cell :: "string option \<Rightarrow> string" where
  "clean_cell cell = (case cell of None \<Rightarrow> [] | Some c \<Rightarrow> if c = [] then [] else strip c)"

section \<open>The Kruse and Sons parser (vendors/kruse_sons.py)\<close>

text \<open>\<open>re.match(r'^(\d{1,3})\b', text)\<close> on the stripped text: the whole leading digit run, when
  it has one to three digits and is followed by the end or by a non-word character.\<close>

definition KruseSonsParser_extract_product_id :: "string \<Rightarrow> string option \<times> string" where
  "KruseSonsParser_extract_product_id text0 =
     (let text = strip text0;
          ds = takeWhile is_digit text;
          rest = drop (length ds) text
      in if ds \<noteq> [] \<and> length ds \<le> 3 \<and> \<not> list_ex is_word (take 1 rest)
         then (Some ds, strip rest) else (None, text))"

text \<open>\<open>re.match(r'^\d{1,3}$', product_id)\<close> accepts a final newline after the digits.\<close>

definition KruseSonsParser_validate_product_id :: "string \<Rightarrow> bool" where
  "KruseSonsParser_validate_product_id pid =
     (if pid = [] then False
      else if upper pid \<in> set [''N/A'', ''NA'', ''-''] then True
      else let ds = takeWhile is_digit pid
           in ds \<noteq> [] \<and> length ds \<le> 3 \<and> at_end (drop (length ds) pid))"

text \<open>\<open>(\d{1,5}\.\d{2})\<close> and \<open>(\d{1,5})\<close> tried at the head of the text. The first needs the
  point right after the whole digit run, so the run has at most five digits.\<close>

definition decimal_here :: "string \<Rightarrow> (string \<times> string option) option" where
  "decimal_here s =
     (let ds = takeWhile is_digit s in
      if ds \<noteq> [] \<and> length ds \<le> 5 \<and> two_decimals (drop (length ds) s) \<noteq> None
      then Some (ds, two_decimals (drop (length ds) s)) else None)"

definition integer_here :: "string \<Rightarrow> (string \<times> string option) option" where
  "integer_here s =
     (let ds = takeWhile is_digit s in if ds \<noteq> [] then Some (take 5 ds, None) else None)"

definition KruseSonsParser_clean_cost :: "string \<Rightarrow> string option" where
  "KruseSonsParser_clean_cost cost_str0 =
     (if cost_str0 = [] then None
      else
        let cost_str = upper (strip cost_str0);
            found = (case re_search decimal_here cost_str of
                       Some m \<Rightarrow> Some m
                     | None \<Rightarrow> re_search integer_here cost_str)
        in case found of
             None \<Rightarrow> None
           | Some (whole, decimals) \<Rightarrow>
               let cost_value = cents_of whole decimals in
               if \<not> (1 \<le> cost_value \<and> cost_value \<le> 999999) then None
               else Some (''$'' @ format_cents cost_value @ ''/LB''))"

definition KruseSonsParser_is_valid_description :: "string \<Rightarrow> bool" where
  "KruseSonsParser_is_valid_description d =
     (if d = [] then False
      else if starts_with ''**'' (strip d) then False
      else if alpha_count d < 2 then False
      else True)"

text \<open>The identifier step of \<open>parse_table_row\<close>: an empty cell, a cell from which no code can be
  extracted and a code that does not validate all give the sentinel.\<close>

definition KruseSonsParser_row_id :: "string \<Rightarrow> string" where
  "KruseSonsParser_row_id raw_id =
     (if raw_id = [] \<or> strip raw_id = [] then ''N/A''
      else case fst (KruseSonsParser_extract_product_id raw_id) of
             None \<Rightarrow> ''N/A''
           | Some pid \<Rightarrow> if pid = [] \<or> \<not> KruseSonsParser_validate_product_id pid then ''N/A'' else pid)"

definition KruseSonsParser_parse_table_row :: "string option list \<Rightarrow> line_item option" where
  "KruseSonsParser_parse_table_row row =
     (if row = [] \<or> length row < 3 then None
      else
        let row_clean = map clean_cell row;
            raw_id = row_clean ! 0;
            desc = row_clean ! 1;
            raw_price = last row_clean
        in if starts_with ''**'' desc then None
           else if raw_price = [] \<or> \<not> list_ex is_digit raw_price then None
           else
             let pid = KruseSonsParser_row_id raw_id in
             if desc = [] \<or> \<not> KruseSonsParser_is_valid_description desc then None
             else case KruseSonsParser_clean_cost raw_price of
                    None \<Rightarrow> None
                  | Some cost_cleaned \<Rightarrow>
                      if cost_cleaned = [] then None
                      else Some \<lparr>item_id = pid, item_description = desc, item_cost = cost_cleaned\<rparr>)"

section \<open>The RW Zant parser (vendors/rw_zant.py)\<close>

text \<open>\<open>re.match(r'^(\d+)', text)\<close>; digits beyond the sixth go back in front of the remainder.\<close>

definition RWZantParser_extract_product_id :: "string \<Rightarrow> string option \<times> string" where
  "RWZantParser_extract_product_id text0 =
     (let text = strip text0;
          digits = takeWhile is_digit text;
          remaining = strip (drop (length digits) text)
      in if digits = [] then (None, text)
         else if length digits > 6 then (Some (take 6 digits), drop 6 digits @ '' '' @ remaining)
         else (Some digits, remaining))"

definition RWZantParser_validate_product_id :: "string \<Rightarrow> bool" where
  "RWZantParser_validate_product_id pid =
     (if pid = [] then False
      else if \<not> isdigit pid then False
      else if length pid > 6 then False
      else True)"

text \<open>\<open>' '.join(parts)\<close> and \<open>re.sub(r'\s+', ' ', text)\<close>\<close>

fun join_space :: "string list \<Rightarrow> string" where
  "join_space [] = []"
| "join_space [p] = p"
| "join_space (p # q # ps) = p @ '' '' @ join_space (q # ps)"

function collapse_spaces :: "string \<Rightarrow> string" where
  "collapse_spaces [] = []"
| "collapse_spaces (c # cs) =
     (if is_space c then CHR '' '' # collapse_spaces (dropWhile is_space cs)
      else c # collapse_spaces cs)"
  by pat_completeness auto
termination
  by (relation "measure length") (auto simp: length_dropWhile_le less_Suc_eq_le)

text \<open>The index of the first cell that holds a dollar sign.\<close>

fun find_cost_idx :: "string option list \<Rightarrow> nat option" where
  "find_cost_idx [] = None"
| "find_cost_idx (cell # cells) =
     (if (case cell of None \<Rightarrow> False | Some c \<Rightarrow> c \<noteq> [] \<and> CHR ''$'' \<in> set c) then Some 0
      else map_option Suc (find_cost_idx cells))"

definition RWZantParser_parse_table_row :: "string option list \<Rightarrow> line_item option" where
  "RWZantParser_parse_table_row row =
     (if row = [] \<or> length row < 3 then None
      else case find_cost_idx row of
        None \<Rightarrow> None
      | Some cost_idx \<Rightarrow>
          let raw_id = clean_cell (row ! 0);
              raw_price = clean_cell (row ! cost_idx);
              description_parts = filter (\<lambda>p. p \<noteq> []) (map clean_cell (take (cost_idx - 1) (drop 1 row)))
          in if raw_id = [] \<or> description_parts = [] then None
             else case BaseParser_clean_cost raw_price of
               None \<Rightarrow> None
             | Some cost_cleaned \<Rightarrow>
                 if cost_cleaned = [] then None
                 else case RWZantParser_extract_product_id raw_id of
                   (None, extra_text) \<Rightarrow> None
                 | (Some pid, extra_text) \<Rightarrow>
                     if pid = [] \<or> \<not> RWZantParser_validate_product_id pid then None
                     else
                       let joined = join_space description_parts;
                           desc0 = (if extra_text \<noteq> [] then extra_text @ '' '' @ joined else joined);
                           desc = strip (collapse_spaces desc0)
                       in if \<not> BaseParser_is_valid_description desc then None
                          else Some \<lparr>item_id = pid, item_description = desc, item_cost = cost_cleaned\<rparr>)"

section \<open>The extraction strategy selector (pdf_processor.process_pdf)\<close>

text \<open>What one extraction strategy does on a document: it raises (\<open>Inl\<close>, with the exception's
  text) or returns a list of records.\<close>

type_synonym extraction = "string + line_item list"

text \<open>The four strategies, as functions of the file path and the vendor code, and the
  module flag \<open>HAS_GEMINI\<close> (whether the AI-assisted parser could be imported).\<close>

record extractors =
  HAS_GEMINI :: bool
  parse_pdf_with_gemini :: "string \<Rightarrow> string \<Rightarrow> extraction"
  extract_image_tables_structured :: "string \<Rightarrow> string \<Rightarrow> extraction"
  extract_text_tables :: "string \<Rightarrow> string \<Rightarrow> extraction"
  extract_image_tables :: "string \<Rightarrow> string \<Rightarrow> extraction"

definition gemini_vendors :: "string list" where
  "gemini_vendors =
     [''glen_rose'', ''kruse_sons'', ''quirch_foods'', ''purcell'', ''laras_meat'', ''maui_prices'',
      ''cd_international'', ''royalty_distribution'', ''la_poultry'', ''tnt_produce'',
      ''apsic_wholesale'', ''delmar_cow'', ''delmar_steer'',
      ''gladway'', ''union_fish'', ''solomon_wholesale'', ''da_price'', ''broadleaf'',
      ''cofoods'', ''monarch_trading'', ''unknown'']"

text \<open>The vendors with an image-based fallback block, each with the name its failure message
  uses: a literal for the first three blocks, \<open>VENDOR_CONFIGS[vendor]['name']\<close> for the fourth.\<close>

definition image_fallback_vendors :: "(string \<times> string) list" where
  "image_fallback_vendors =
     [(''glen_rose'', ''Glen Rose''), (''kruse_sons'', ''Kruse & Sons''), (''quirch_foods'', ''Quirch Foods''),
      (''purcell'', ''Purcell''), (''laras_meat'', ''Laras Meat''), (''maui_prices'', ''Maui Prices''),
      (''cd_international'', ''C&D International Fishery''),
      (''royalty_distribution'', ''Royalty Distribution''), (''la_poultry'', ''Los Angeles Poultry Co''),
      (''tnt_produce'', ''TNT Produce Company''), (''apsic_wholesale'', ''APSIC Wholesale''),
      (''delmar_cow'', ''Del Mar Distributions COW''), (''delmar_steer'', ''Del Mar Distributions Steer''),
      (''gladway'', ''Gladway Pricing''), (''union_fish'', ''Union Fish''),
      (''solomon_wholesale'', ''Solomon Wholesale''), (''da_price'', ''D&A PRICE''),
      (''broadleaf'', ''Broadleaf''), (''cofoods'', ''Cofoods Inc''), (''monarch_trading'', ''Monarch Trading'')]"

text \<open>The last two blocks: text extraction, whose exception is only logged, then OCR, whose
  exception is raised again; an empty OCR result falls to \<open>return extracted_data\<close>, the empty list.\<close>

definition text_then_ocr :: "extractors \<Rightarrow> string \<Rightarrow> string \<Rightarrow> extraction" where
  "text_then_ocr x filepath vendor =
     (let text_hit = (case extract_text_tables x filepath vendor of
                        Inl e \<Rightarrow> None
                      | Inr text_data \<Rightarrow> if text_data \<noteq> [] then Some text_data else None)
      in case text_hit of
           Some text_data \<Rightarrow> Inr text_data
         | None \<Rightarrow>
             (case extract_image_tables x filepath vendor of
                Inl e \<Rightarrow> Inl (''Failed to extract data from PDF: '' @ e)
              | Inr ocr_data \<Rightarrow> if ocr_data \<noteq> [] then Inr ocr_data else Inr []))"

text \<open>The image-based fallback blocks: a vendor matches at most one of them; its exception is
  raised again with the vendor's name, its empty result falls through.\<close>

definition image_then_rest :: "extractors \<Rightarrow> string \<Rightarrow> string \<Rightarrow> extraction" where
  "image_then_rest x filepath vendor =
     (case map_of image_fallback_vendors vendor of
        None \<Rightarrow> text_then_ocr x filepath vendor
      | Some vendor_name \<Rightarrow>
          (case extract_image_tables_structured x filepath vendor of
             Inl e \<Rightarrow> Inl (''Failed to extract data from '' @ vendor_name @ '' PDF: '' @ e)
           | Inr image_data \<Rightarrow>
               if image_data \<noteq> [] then Inr image_data else text_then_ocr x filepath vendor))"

definition process_pdf :: "extractors \<Rightarrow> string \<Rightarrow> string \<Rightarrow> extraction" where
  "process_pdf x filepath vendor =
     (let gemini_hit =
            (if vendor \<in> set gemini_vendors \<and> HAS_GEMINI x
             then (case parse_pdf_with_gemini x filepath vendor of
                     Inl e \<Rightarrow> None
                   | Inr gemini_data \<Rightarrow> if gemini_data \<noteq> [] then Some gemini_data else None)
             else None)
      in case gemini_hit of
           Some gemini_data \<Rightarrow> Inr gemini_data
         | None \<Rightarrow> image_then_rest x filepath vendor)"

text \<open>The outcomes of the strategies in the order \<open>process_pdf\<close> reaches them for a vendor, and
  what it means for a strategy to fail: it raises or returns no record.\<close>

definition strategy_outcomes :: "extractors \<Rightarrow> string \<Rightarrow> string \<Rightarrow> extraction list" where
  "strategy_outcomes x filepath vendor =
     (if vendor \<in> set gemini_vendors \<and> HAS_GEMINI x then [parse_pdf_with_gemini x filepath vendor] else [])
     @ (if map_of image_fallback_vendors vendor \<noteq> None
        then [extract_image_tables_structured x filepath vendor] else [])
     @ [extract_text_tables x filepath vendor, extract_image_tables x filepath vendor]"

definition strategy_failed :: "extraction \<Rightarrow> bool" where
  "strategy_failed outcome = (case outcome of Inl e \<Rightarrow> True | Inr records \<Rightarrow> records = [])"

definition raised :: "extraction \<Rightarrow> bool" where
  "raised outcome = (case outcome of Inl e \<Rightarrow> True | Inr records \<Rightarrow> False)"

section \<open>Properties of identifier normalization\<close>

text \<open>
  C1. The five documented examples: \<open>Z156171\<close> gives \<open>156171\<close>, \<open>G0015050194\<close> gives
  \<open>15050194\<close>, \<open>K002013-01\<close> gives \<open>13-01\<close>, \<open>156171-01\<close> stays \<open>156171-01\<close> and
  \<open>156171A\<close> gives \<open>156171\<close>.
\<close>

theorem normalize_spec_examples:
  "normalize_product_id ''Z156171'' = ''156171''
   \<and> normalize_product_id ''G0015050194'' = ''15050194''
   \<and> normalize_product_id ''K002013-01'' = ''13-01''
   \<and> normalize_product_id ''156171-01'' = ''156171-01''
   \<and> normalize_product_id ''156171A'' = ''156171''"
  by (intro conjI; code_simp)

lemma upper_char_digit: "is_digit (upper_char c) = is_digit c"
  by (auto simp: upper_char_def is_digit_def split: option.splits if_splits)

lemma no_digit_upper: "list_all (\<lambda>c. \<not> is_digit c) s \<Longrightarrow> list_all (\<lambda>c. \<not> is_digit c) (upper s)"
  by (induction s) (auto simp: upper_def upper_char_digit)

lemma no_digit_strip: "list_all (\<lambda>c. \<not> is_digit c) s \<Longrightarrow> list_all (\<lambda>c. \<not> is_digit c) (strip s)"
  unfolding strip_def list_all_iff
  by (auto dest!: set_dropWhileD)

lemma no_digit_k002: "list_all (\<lambda>c. \<not> is_digit c) s \<Longrightarrow> k002_match s = None"
proof -
  assume nd: "list_all (\<lambda>c. \<not> is_digit c) s"
  let ?g = "take 3 (drop 4 s)"
  have sub: "set ?g \<subseteq> set s"
    by (meson set_take_subset set_drop_subset subset_trans)
  have "\<not> (length ?g = 3 \<and> list_all is_digit ?g)"
  proof
    assume h: "length ?g = 3 \<and> list_all is_digit ?g"
    then have "?g \<noteq> []" by auto
    then have "hd ?g \<in> set ?g" by (rule hd_in_set)
    with h sub nd show False by (auto simp: list_all_iff)
  qed
  then show ?thesis by (auto simp: k002_match_def Let_def)
qed

lemma no_digit_suffix_here: "list_all (\<lambda>c. \<not> is_digit c) s \<Longrightarrow> suffix_here s = None"
  by (cases s) (auto simp: suffix_here_def Let_def)

lemma no_digit_suffix: "list_all (\<lambda>c. \<not> is_digit c) s \<Longrightarrow> suffix_match s = None"
  by (induction s) (auto simp: no_digit_suffix_here split: option.splits)

lemma no_digit_core: "list_all (\<lambda>c. \<not> is_digit c) s \<Longrightarrow> core_match s = None"
  by (induction s) auto

lemma no_digit_runs: "list_all (\<lambda>c. \<not> is_digit c) s \<Longrightarrow> digit_runs s = []"
  by (induction s) auto

text \<open>
  C7, as stated, fails: \<open>ABC\<close> has no digit and is not the sentinel, and it normalizes to
  \<open>ABC\<close>, not to the empty token (the last line of the function returns the cleaned text).
\<close>

theorem normalize_no_digit_counterexample:
  "list_all (\<lambda>c. \<not> is_digit c) ''ABC'' \<and> ''ABC'' \<noteq> ''N/A''
   \<and> normalize_product_id ''ABC'' = ''ABC'' \<and> normalize_product_id ''ABC'' \<noteq> []"
  by code_simp

text \<open>
  C7, amended: an input with no digit that is not the sentinel \<open>N/A\<close> normalizes to itself,
  stripped of surrounding whitespace and upper-cased; the result is the empty token only when
  the input is empty or all whitespace.
\<close>

theorem normalize_no_digit:
  assumes "list_all (\<lambda>c. \<not> is_digit c) s" and "s \<noteq> ''N/A''"
  shows "normalize_product_id s = upper (strip s)"
proof (cases "s = []")
  case True
  then show ?thesis by (simp add: normalize_product_id_def upper_def strip_def)
next
  case False
  have nd: "list_all (\<lambda>c. \<not> is_digit c) (upper (strip s))"
    using assms(1) by (intro no_digit_upper no_digit_strip)
  show ?thesis
    using False assms(2)
    by (simp add: normalize_product_id_def no_digit_k002 [OF nd] no_digit_suffix [OF nd]
        no_digit_core [OF nd] no_digit_runs [OF nd])
qed

theorem normalize_no_digit_witness:
  "list_all (\<lambda>c. \<not> is_digit c) '' abc '' \<and> '' abc '' \<noteq> ''N/A''
   \<and> normalize_product_id '' abc '' = ''ABC''"
proof -
  have h1: "list_all (\<lambda>c. \<not> is_digit c) '' abc ''" by (simp add: is_digit_def)
  have h2: "'' abc '' \<noteq> ''N/A''" by simp
  have "upper (strip '' abc '') = ''ABC''" by code_simp
  with normalize_no_digit [OF h1 h2] h1 h2 show ?thesis by simp
qed

section \<open>Properties of matching\<close>

text \<open>
  C10. With an empty catalog, \<open>match_product_by_id\<close> returns \<open>NO_MATCH\<close> with confidence 0.0
  and no description at once, whatever the record, the API key and \<open>use_ai_fallback\<close>; no
  prompt is sent to the model.
\<close>

theorem empty_catalog_no_match:
  "match_product_by_id w extracted_product [] confidence_threshold use_ai_fallback =
     (Inr \<lparr>matched_id = PyStr ''NO_MATCH'', confidence = PyFloat 0,
           reasoning = PyStr ''Reference database is empty'', matched_description = None\<rparr>, [])"
  by (simp add: match_product_by_id_def NO_MATCH_def)















lemma score_K002019_01: "complexity_score ''K002019-01'' = (0, 1, 10, ''K002019-01'')"
  by code_simp

lemma score_K002019_01FZ: "complexity_score ''K002019-01FZ'' = (1, 1, 12, ''K002019-01FZ'')"
  by code_simp

lemma upper_K002019_01: "upper ''K002019-01'' = ''K002019-01''"
  by code_simp

lemma upper_K002019_01FZ: "upper ''K002019-01FZ'' = ''K002019-01FZ''"
  by code_simp

lemma score_le: "((0::nat, 1::nat, 10::nat, ''K002019-01'') \<le> (1, 1, 12, ''K002019-01FZ''))"
  by (simp add: less_eq_prod_def)

lemma score_not_le: "\<not> ((1::nat, 1::nat, 12::nat, ''K002019-01FZ'') \<le> (0, 1, 10, ''K002019-01''))"
  by (simp add: less_eq_prod_def)


lemma clear_winner_pair:
  assumes sa: "score_of a = (0, 1, 10, ''K002019-01'')" and sb: "score_of b = (1, 1, 12, ''K002019-01FZ'')"
  shows "clear_winner [a, b] = Some a" and "clear_winner [b, a] = Some a"
proof -
  have s1: "sort_key score_of [a, b] = [a, b]"
    by (simp add: sa sb score_le)
  have s2: "sort_key score_of [b, a] = [a, b]"
    by (simp add: sa sb score_not_le)
  show "clear_winner [a, b] = Some a"
    unfolding clear_winner_def s1 by (simp add: sa sb)
  show "clear_winner [b, a] = Some a"
    unfolding clear_winner_def s2 by (simp add: sa sb)
qed


lemma tie_break_pair:
  assumes a: "product_id a = ''K002019-01''" and b: "product_id b = ''K002019-01FZ''"
  shows "select_simplest_product_id [a, b] = Some a" and "select_simplest_product_id [b, a] = Some a"
proof -
  have sa: "score_of a = (0, 1, 10, ''K002019-01'')"
    by (simp add: score_of_def a score_K002019_01)
  have sb: "score_of b = (1, 1, 12, ''K002019-01FZ'')"
    by (simp add: score_of_def b score_K002019_01FZ)
  note cw = clear_winner_pair [OF sa sb]
  show "select_simplest_product_id [a, b] = Some a"
    by (simp add: select_simplest_product_id_def Let_def a b upper_K002019_01 upper_K002019_01FZ
        starts_with_def cw)
  show "select_simplest_product_id [b, a] = Some a"
    by (simp add: select_simplest_product_id_def Let_def a b upper_K002019_01 upper_K002019_01FZ
        starts_with_def cw)
qed


lemma normalize_K002019_01: "normalize_product_id ''K002019-01'' = ''19-01''"
  by code_simp

lemma normalize_sentinel: "normalize_product_id ''N/A'' = []"
  by (simp add: normalize_product_id_def)

lemma matching_products_member:
  "p \<in> set (matching_products n db) \<Longrightarrow>
     p \<in> set db \<and> (n = normalize_product_id (product_id p) \<or> n @ ''-01'' = normalize_product_id (product_id p))"
  by (auto simp: matching_products_def Let_def)

text \<open>
  C8. Whenever the candidates found for the extracted token are exactly the two entries with
  ids \<open>K002019-01\<close> and \<open>K002019-01FZ\<close>, in either catalog order, the simplicity tie-break
  selects the entry \<open>K002019-01\<close>, and \<open>match_product_by_id\<close> returns it at confidence 1.0
  without consulting the model.
\<close>

theorem tie_break_K002019:
  assumes a: "product_id a = ''K002019-01''" and b: "product_id b = ''K002019-01FZ''"
    and c: "matching_products (normalize_product_id (get_str extracted_product ''product_id'' ''N/A''))
              reference_database = [a, b]
            \<or> matching_products (normalize_product_id (get_str extracted_product ''product_id'' ''N/A''))
              reference_database = [b, a]"
  shows "select_simplest_product_id
           (matching_products (normalize_product_id (get_str extracted_product ''product_id'' ''N/A''))
              reference_database) = Some a
         \<and> (\<exists>r. match_product_by_id w extracted_product reference_database confidence_threshold use_ai_fallback
                  = (Inr r, [])
                \<and> matched_id r = PyStr ''K002019-01'' \<and> confidence r = PyFloat 1
                \<and> matched_description r = Some (description a))"
proof -
  define eid where "eid = get_str extracted_product ''product_id'' ''N/A''"
  define n where "n = normalize_product_id eid"
  define cs where "cs = matching_products n reference_database"
  from c have cs: "cs = [a, b] \<or> cs = [b, a]"
    by (simp add: cs_def n_def eid_def)
  then have "a \<in> set cs" by auto
  then have mem: "a \<in> set reference_database \<and> (n = ''19-01'' \<or> n @ ''-01'' = ''19-01'')"
    using matching_products_member [of a n reference_database]
    by (simp add: cs_def a normalize_K002019_01)
  then have db: "reference_database \<noteq> []" by auto
  from mem have n: "n \<noteq> []" by auto
  with normalize_sentinel have eid: "eid \<noteq> ''N/A''" unfolding n_def by auto
  have len: "length cs = 2" using cs by auto
  have sel: "select_simplest_product_id cs = Some a"
    using cs tie_break_pair [OF a b] by auto
  have "match_product_by_id w extracted_product reference_database confidence_threshold use_ai_fallback
          = (Inr (id_match ''ID match (simplest): '' eid n a 1), [])"
    unfolding match_product_by_id_def Let_def eid_def [symmetric] n_def [symmetric] cs_def [symmetric]
    using db n eid len sel by simp
  then show ?thesis
    using sel by (simp add: cs_def n_def eid_def id_match_def a)
qed


theorem tie_break_K002019_witness:
  "product_id \<lparr>product_id = ''K002019-01'', description = ''HAM''\<rparr> = ''K002019-01''
   \<and> product_id \<lparr>product_id = ''K002019-01FZ'', description = ''HAM FROZEN''\<rparr> = ''K002019-01FZ''
   \<and> matching_products (normalize_product_id (get_str [''product_id'' \<mapsto> ''19''] ''product_id'' ''N/A''))
         [\<lparr>product_id = ''K002019-01FZ'', description = ''HAM FROZEN''\<rparr>,
          \<lparr>product_id = ''Z75880'', description = ''Ground Beef 80/20''\<rparr>,
          \<lparr>product_id = ''K002019-01'', description = ''HAM''\<rparr>]
       = [\<lparr>product_id = ''K002019-01FZ'', description = ''HAM FROZEN''\<rparr>,
          \<lparr>product_id = ''K002019-01'', description = ''HAM''\<rparr>]
   \<and> (\<exists>r. match_product_by_id
              \<lparr>GEMINI_API_KEY = None, generate_content = (\<lambda>p. Inl ''unreachable''),
               json_loads = (\<lambda>s. JSONDecodeError ''unreachable'')\<rparr>
              [''product_id'' \<mapsto> ''19'']
              [\<lparr>product_id = ''K002019-01FZ'', description = ''HAM FROZEN''\<rparr>,
               \<lparr>product_id = ''Z75880'', description = ''Ground Beef 80/20''\<rparr>,
               \<lparr>product_id = ''K002019-01'', description = ''HAM''\<rparr>]
              (8 / 10) True = (Inr r, [])
          \<and> matched_id r = PyStr ''K002019-01'' \<and> confidence r = PyFloat 1
          \<and> matched_description r = Some ''HAM'')"
proof -
  have h1: "product_id \<lparr>product_id = ''K002019-01'', description = ''HAM''\<rparr> = ''K002019-01''"
    by simp
  have h2: "product_id \<lparr>product_id = ''K002019-01FZ'', description = ''HAM FROZEN''\<rparr> = ''K002019-01FZ''"
    by simp
  have h3: "matching_products (normalize_product_id (get_str [''product_id'' \<mapsto> ''19''] ''product_id'' ''N/A''))
         [\<lparr>product_id = ''K002019-01FZ'', description = ''HAM FROZEN''\<rparr>,
          \<lparr>product_id = ''Z75880'', description = ''Ground Beef 80/20''\<rparr>,
          \<lparr>product_id = ''K002019-01'', description = ''HAM''\<rparr>]
       = [\<lparr>product_id = ''K002019-01FZ'', description = ''HAM FROZEN''\<rparr>,
          \<lparr>product_id = ''K002019-01'', description = ''HAM''\<rparr>]"
    by code_simp
  from tie_break_K002019 [OF h1 h2 disjI2 [OF h3]] h1 h2 h3 show ?thesis
    by simp
qed

lemma only_candidate:
  assumes e: "normalize_product_id (product_id e) = ''11-01''"
    and others: "list_all (\<lambda>x. normalize_product_id (product_id x) \<noteq> ''11''
                              \<and> normalize_product_id (product_id x) \<noteq> ''11-01'') (before @ after)"
  shows "matching_products ''11'' (before @ e # after) = [e]"
proof -
  let ?P = "\<lambda>ref_product. ''11'' = normalize_product_id (product_id ref_product)
                \<or> ''11'' @ ''-01'' = normalize_product_id (product_id ref_product)"
  have "filter ?P before = []" and "filter ?P after = []"
    using others by (auto simp: list_all_iff filter_empty_conv)
  then show ?thesis
    by (simp add: matching_products_def Let_def e)
qed

text \<open>
  C9. When the extracted identifier normalizes to \<open>11\<close> and the catalog holds one entry whose
  identifier normalizes to \<open>11-01\<close> (no other entry normalizing to \<open>11\<close> or \<open>11-01\<close>, so in
  particular when that entry is the whole catalog), \<open>match_product_by_id\<close> accepts that entry
  through the \<open>-01\<close> extension and returns it at confidence 1.0.
\<close>

theorem suffix_extension_match:
  assumes n: "normalize_product_id (get_str extracted_product ''product_id'' ''N/A'') = ''11''"
    and e: "normalize_product_id (product_id e) = ''11-01''"
    and others: "list_all (\<lambda>x. normalize_product_id (product_id x) \<noteq> ''11''
                              \<and> normalize_product_id (product_id x) \<noteq> ''11-01'') (before @ after)"
  shows "\<exists>r. match_product_by_id w extracted_product (before @ e # after) confidence_threshold use_ai_fallback
               = (Inr r, [])
             \<and> matched_id r = PyStr (product_id e) \<and> confidence r = PyFloat 1
             \<and> matched_description r = Some (description e)"
proof -
  have eid: "get_str extracted_product ''product_id'' ''N/A'' \<noteq> ''N/A''"
    using n normalize_sentinel by auto
  show ?thesis
    unfolding match_product_by_id_def Let_def n only_candidate [OF e others]
    using eid by (simp add: id_match_def)
qed

theorem suffix_extension_match_witness:
  "normalize_product_id (get_str [''product_id'' \<mapsto> ''11''] ''product_id'' ''N/A'') = ''11''
   \<and> normalize_product_id (product_id \<lparr>product_id = ''K002011-01'', description = ''HAM''\<rparr>) = ''11-01''
   \<and> list_all (\<lambda>x. normalize_product_id (product_id x) \<noteq> ''11''
                     \<and> normalize_product_id (product_id x) \<noteq> ''11-01'')
        ([\<lparr>product_id = ''Z75880'', description = ''Ground Beef 80/20''\<rparr>] @ [])
   \<and> (\<exists>r. match_product_by_id
              \<lparr>GEMINI_API_KEY = None, generate_content = (\<lambda>p. Inl ''unreachable''),
               json_loads = (\<lambda>s. JSONDecodeError ''unreachable'')\<rparr>
              [''product_id'' \<mapsto> ''11'']
              [\<lparr>product_id = ''Z75880'', description = ''Ground Beef 80/20''\<rparr>,
               \<lparr>product_id = ''K002011-01'', description = ''HAM''\<rparr>] (8 / 10) True = (Inr r, [])
          \<and> matched_id r = PyStr ''K002011-01'' \<and> confidence r = PyFloat 1
          \<and> matched_description r = Some ''HAM'')"
proof -
  have h1: "normalize_product_id (get_str [''product_id'' \<mapsto> ''11''] ''product_id'' ''N/A'') = ''11''"
    by code_simp
  have h2: "normalize_product_id (product_id \<lparr>product_id = ''K002011-01'', description = ''HAM''\<rparr>) = ''11-01''"
    by code_simp
  have h3: "list_all (\<lambda>x. normalize_product_id (product_id x) \<noteq> ''11''
                     \<and> normalize_product_id (product_id x) \<noteq> ''11-01'')
        ([\<lparr>product_id = ''Z75880'', description = ''Ground Beef 80/20''\<rparr>] @ [])"
    by code_simp
  from suffix_extension_match [OF h1 h2 h3] h1 h2 h3 show ?thesis
    by simp
qed

section \<open>Properties of cost cleaning\<close>

lemma digit_value_le: "is_digit c \<Longrightarrow> digit_value c \<le> 9"
  by (auto simp: is_digit_def digit_value_def)

lemma nat_of_digits_snoc: "nat_of_digits (ds @ [c]) = 10 * nat_of_digits ds + digit_value c"
  by (simp add: nat_of_digits_def)

lemma nat_of_digits_bound: "list_all is_digit ds \<Longrightarrow> nat_of_digits ds < 10 ^ length ds"
proof (induction ds rule: rev_induct)
  case Nil
  then show ?case by (simp add: nat_of_digits_def)
next
  case (snoc c ds)
  then have ih: "nat_of_digits ds < 10 ^ length ds" and c: "digit_value c \<le> 9"
    by (auto simp: digit_value_le)
  then have "10 * nat_of_digits ds + digit_value c < 10 * 10 ^ length ds" by arith
  then show ?case by (simp add: nat_of_digits_snoc)
qed

lemma two_decimals_Some: "two_decimals r = Some f \<Longrightarrow> length f = 2 \<and> list_all is_digit f"
  by (auto simp: two_decimals_def split: if_splits)

lemma two_decimals_value: "two_decimals r = Some f \<Longrightarrow> nat_of_digits f < 100"
  using nat_of_digits_bound [of f] two_decimals_Some [of r f] by auto

lemma cents_of_bound:
  assumes "list_all is_digit whole" and "length whole \<le> n" and "d = None \<or> two_decimals r = d"
  shows "cents_of whole d < 100 * 10 ^ n"
proof -
  have "nat_of_digits whole < 10 ^ length whole"
    using assms(1) by (rule nat_of_digits_bound)
  also have "\<dots> \<le> (10::nat) ^ n"
    using assms(2) by (simp add: power_increasing)
  finally have w: "nat_of_digits whole + 1 \<le> 10 ^ n" by simp
  have f: "(case d of None \<Rightarrow> 0 | Some f \<Rightarrow> nat_of_digits f) < 100"
  proof (cases d)
    case None
    then show ?thesis by simp
  next
    case (Some f)
    with assms(3) have "two_decimals r = Some f" by simp
    from two_decimals_value [OF this] Some show ?thesis by simp
  qed
  have "100 * nat_of_digits whole + 100 \<le> 100 * 10 ^ n"
    using w by simp
  with f show ?thesis
    unfolding cents_of_def by linarith
qed




lemmas cents_eval = cents_of_def format_cents_def digit_char_def nat_of_digits_def digit_value_def







section \<open>Properties of the strategy selector\<close>

text \<open>
  C5, as stated, fails: for \<open>rw_zant\<close>, whose strategies are text extraction then OCR, both
  returning no record and neither raising, \<open>process_pdf\<close> returns the empty list and does not
  raise.
\<close>

theorem process_pdf_empty_counterexample:
  "list_all strategy_failed
     (strategy_outcomes
        \<lparr>HAS_GEMINI = True, parse_pdf_with_gemini = (\<lambda>f v. Inl ''quota exceeded''),
         extract_image_tables_structured = (\<lambda>f v. Inr []),
         extract_text_tables = (\<lambda>f v. Inr []), extract_image_tables = (\<lambda>f v. Inr [])\<rparr>
        ''pricelist.pdf'' ''rw_zant'')
   \<and> process_pdf
        \<lparr>HAS_GEMINI = True, parse_pdf_with_gemini = (\<lambda>f v. Inl ''quota exceeded''),
         extract_image_tables_structured = (\<lambda>f v. Inr []),
         extract_text_tables = (\<lambda>f v. Inr []), extract_image_tables = (\<lambda>f v. Inr [])\<rparr>
        ''pricelist.pdf'' ''rw_zant'' = Inr []"
  by code_simp

lemma process_pdf_all_failed_cases:
  assumes "list_all strategy_failed (strategy_outcomes x filepath vendor)"
  shows "process_pdf x filepath vendor =
           (case map_of image_fallback_vendors vendor of
              Some vendor_name \<Rightarrow>
                (case extract_image_tables_structured x filepath vendor of
                   Inl e \<Rightarrow> Inl (''Failed to extract data from '' @ vendor_name @ '' PDF: '' @ e)
                 | Inr image_data \<Rightarrow>
                     (case extract_image_tables x filepath vendor of
                        Inl e \<Rightarrow> Inl (''Failed to extract data from PDF: '' @ e)
                      | Inr ocr_data \<Rightarrow> Inr []))
            | None \<Rightarrow>
                (case extract_image_tables x filepath vendor of
                   Inl e \<Rightarrow> Inl (''Failed to extract data from PDF: '' @ e)
                 | Inr ocr_data \<Rightarrow> Inr []))"
  using assms
  by (auto simp: process_pdf_def image_then_rest_def text_then_ocr_def strategy_outcomes_def
      strategy_failed_def Let_def split: sum.splits option.splits if_splits)

text \<open>
  C5, amended: when every strategy of the vendor's list fails, \<open>process_pdf\<close> either raises or
  returns the empty list; it raises exactly when the image-based table extraction (for a
  vendor that has this fallback) raised or the final OCR extraction raised. When the last
  strategy only returns no record, the result is the empty list.
\<close>

theorem process_pdf_all_failed:
  assumes "list_all strategy_failed (strategy_outcomes x filepath vendor)"
  shows "(process_pdf x filepath vendor = Inr [] \<or> raised (process_pdf x filepath vendor))
         \<and> raised (process_pdf x filepath vendor) =
             (map_of image_fallback_vendors vendor \<noteq> None
                \<and> raised (extract_image_tables_structured x filepath vendor)
              \<or> raised (extract_image_tables x filepath vendor))"
proof -
  note e = process_pdf_all_failed_cases [OF assms]
  show ?thesis
    unfolding e
    by (cases "map_of image_fallback_vendors vendor";
        cases "extract_image_tables_structured x filepath vendor";
        cases "extract_image_tables x filepath vendor")
       (simp_all add: raised_def)
qed

theorem process_pdf_all_failed_witness:
  "list_all strategy_failed
     (strategy_outcomes
        \<lparr>HAS_GEMINI = True, parse_pdf_with_gemini = (\<lambda>f v. Inl ''quota exceeded''),
         extract_image_tables_structured = (\<lambda>f v. Inr []),
         extract_text_tables = (\<lambda>f v. Inr []),
         extract_image_tables = (\<lambda>f v. Inl ''tesseract is not installed'')\<rparr>
        ''pricelist.pdf'' ''glen_rose'')
   \<and> process_pdf
        \<lparr>HAS_GEMINI = True, parse_pdf_with_gemini = (\<lambda>f v. Inl ''quota exceeded''),
         extract_image_tables_structured = (\<lambda>f v. Inr []),
         extract_text_tables = (\<lambda>f v. Inr []),
         extract_image_tables = (\<lambda>f v. Inl ''tesseract is not installed'')\<rparr>
        ''pricelist.pdf'' ''glen_rose''
       = Inl ''Failed to extract data from PDF: tesseract is not installed''
   \<and> raised (process_pdf
        \<lparr>HAS_GEMINI = True, parse_pdf_with_gemini = (\<lambda>f v. Inl ''quota exceeded''),
         extract_image_tables_structured = (\<lambda>f v. Inr []),
         extract_text_tables = (\<lambda>f v. Inr []),
         extract_image_tables = (\<lambda>f v. Inl ''tesseract is not installed'')\<rparr>
        ''pricelist.pdf'' ''glen_rose'')"
proof -
  let ?x = "\<lparr>HAS_GEMINI = True, parse_pdf_with_gemini = (\<lambda>f v. Inl ''quota exceeded''),
         extract_image_tables_structured = (\<lambda>f v. Inr []),
         extract_text_tables = (\<lambda>f v. Inr []),
         extract_image_tables = (\<lambda>f v. Inl ''tesseract is not installed'')\<rparr>"
  have h: "list_all strategy_failed (strategy_outcomes ?x ''pricelist.pdf'' ''glen_rose'')"
    by code_simp
  have v: "process_pdf ?x ''pricelist.pdf'' ''glen_rose''
             = Inl ''Failed to extract data from PDF: tesseract is not installed''"
    by code_simp
  have "raised (extract_image_tables ?x ''pricelist.pdf'' ''glen_rose'')"
    by (simp add: raised_def)
  with process_pdf_all_failed [OF h] have r: "raised (process_pdf ?x ''pricelist.pdf'' ''glen_rose'')"
    by simp
  from h v r show ?thesis by (intro conjI)
qed

section \<open>Properties of the vendor parsers\<close>

lemma strip_no_leading_space: "dropWhile is_space (strip s) = strip s"
proof -
  define u where "u = dropWhile is_space s"
  define v where "v = dropWhile is_space (rev u)"
  have sv: "strip s = rev v" by (simp add: strip_def u_def v_def)
  have "rev u = takeWhile is_space (rev u) @ v"
    by (simp add: v_def)
  then have "rev (rev u) = rev (takeWhile is_space (rev u) @ v)" by simp
  then have u: "u = rev v @ rev (takeWhile is_space (rev u))" by simp
  show ?thesis
  proof (cases "rev v")
    case Nil
    with sv show ?thesis by simp
  next
    case (Cons c cs)
    with u have "u = c # (cs @ rev (takeWhile is_space (rev u)))" by simp
    then have "hd u = c" and "u \<noteq> []"
      by (metis list.sel(1), metis list.distinct(1))
    then have "\<not> is_space c"
      using hd_dropWhile [of is_space s] by (simp add: u_def)
    with Cons sv show ?thesis by simp
  qed
qed

lemma strip_idem: "strip (strip s) = strip s"
proof -
  define v where "v = dropWhile is_space (rev (dropWhile is_space s))"
  have sv: "strip s = rev v" by (simp add: strip_def v_def)
  have "dropWhile is_space v = v" by (simp add: v_def)
  then show ?thesis
    unfolding strip_def [of "strip s"] strip_no_leading_space
    by (simp add: sv)
qed

lemma clean_cell_stripped: "strip (clean_cell cell) = clean_cell cell"
proof (cases cell)
  case None
  then show ?thesis by (simp add: clean_cell_def strip_def)
next
  case (Some c)
  then show ?thesis by (simp add: clean_cell_def strip_idem) (simp add: strip_def)
qed

lemma re_search_None:
  assumes "\<And>t. list_all (\<lambda>c. \<not> is_digit c) t \<Longrightarrow> f t = None"
    and "list_all (\<lambda>c. \<not> is_digit c) s"
  shows "re_search f s = None"
  using assms(2) by (induction s) (auto simp: assms(1))

lemma no_digit_takeWhile: "list_all (\<lambda>c. \<not> is_digit c) t \<Longrightarrow> takeWhile is_digit t = []"
  by (cases t) auto

lemma no_digit_decimal_here: "list_all (\<lambda>c. \<not> is_digit c) t \<Longrightarrow> decimal_here t = None"
  by (simp add: decimal_here_def no_digit_takeWhile)

lemma no_digit_integer_here: "list_all (\<lambda>c. \<not> is_digit c) t \<Longrightarrow> integer_here t = None"
  by (simp add: integer_here_def no_digit_takeWhile)

lemma kruse_cost_unfold:
  "KruseSonsParser_clean_cost p =
     (if p = [] then None
      else case (case re_search decimal_here (upper (strip p)) of
                   Some m \<Rightarrow> Some m
                 | None \<Rightarrow> re_search integer_here (upper (strip p))) of
             None \<Rightarrow> None
           | Some (whole, decimals) \<Rightarrow>
               if \<not> (1 \<le> cents_of whole decimals \<and> cents_of whole decimals \<le> 999999) then None
               else Some (''$'' @ format_cents (cents_of whole decimals) @ ''/LB''))"
  unfolding KruseSonsParser_clean_cost_def Let_def ..

lemma kruse_cost_no_digit:
  assumes "list_all (\<lambda>c. \<not> is_digit c) p"
  shows "KruseSonsParser_clean_cost p = None"
proof -
  have nd: "list_all (\<lambda>c. \<not> is_digit c) (upper (strip p))"
    using assms by (intro no_digit_upper no_digit_strip)
  have 1: "re_search decimal_here (upper (strip p)) = None"
    using no_digit_decimal_here nd by (rule re_search_None)
  have 2: "re_search integer_here (upper (strip p)) = None"
    using no_digit_integer_here nd by (rule re_search_None)
  show ?thesis
    unfolding kruse_cost_unfold 1 2 by simp
qed

lemma kruse_cost_Some:
  assumes "KruseSonsParser_clean_cost p = Some c"
  shows "p \<noteq> [] \<and> list_ex is_digit p \<and> c \<noteq> []"
proof -
  have 1: "p \<noteq> []"
    using assms by (auto simp: kruse_cost_unfold)
  have 2: "list_ex is_digit p"
  proof (rule ccontr)
    assume "\<not> list_ex is_digit p"
    then have "list_all (\<lambda>c. \<not> is_digit c) p" by (simp add: list_all_iff list_ex_iff)
    from kruse_cost_no_digit [OF this] assms show False by simp
  qed
  have 3: "c \<noteq> []"
    using assms unfolding kruse_cost_unfold
    by (auto split: if_splits option.splits)
  from 1 2 3 show ?thesis by simp
qed

lemma kruse_replaces_invalid_id:
  assumes len: "3 \<le> length row"
    and bad: "case fst (KruseSonsParser_extract_product_id (clean_cell (row ! 0))) of
                None \<Rightarrow> True | Some pid \<Rightarrow> \<not> KruseSonsParser_validate_product_id pid"
    and desc: "KruseSonsParser_is_valid_description (clean_cell (row ! 1))"
    and cost: "KruseSonsParser_clean_cost (clean_cell (last row)) = Some cost_cleaned"
  shows "KruseSonsParser_parse_table_row row =
           Some \<lparr>item_id = ''N/A'', item_description = clean_cell (row ! 1), item_cost = cost_cleaned\<rparr>"
proof -
  from len have ne: "row \<noteq> []" by auto
  have l0: "0 < length row" and l1: "1 < length row" using len by linarith+
  have id0: "map clean_cell row ! 0 = clean_cell (row ! 0)"
    using l0 by (rule nth_map)
  have d1: "map clean_cell row ! 1 = clean_cell (row ! 1)"
    using l1 by (rule nth_map)
  have pl: "last (map clean_cell row) = clean_cell (last row)"
    using ne by (simp add: last_map)
  have rid: "KruseSonsParser_row_id (clean_cell (row ! 0)) = ''N/A''"
    using bad by (simp add: KruseSonsParser_row_id_def split: option.splits)
  from desc have dne: "clean_cell (row ! 1) \<noteq> []"
    and hdr: "\<not> starts_with ''**'' (strip (clean_cell (row ! 1)))"
    by (auto simp: KruseSonsParser_is_valid_description_def split: if_splits)
  from hdr have hdr': "\<not> starts_with ''**'' (clean_cell (row ! 1))"
    by (simp add: clean_cell_stripped)
  from kruse_cost_Some [OF cost]
  have pr: "clean_cell (last row) \<noteq> []" "list_ex is_digit (clean_cell (last row))" "cost_cleaned \<noteq> []"
    by simp_all
  show ?thesis
    unfolding KruseSonsParser_parse_table_row_def Let_def id0 d1 pl rid
    using len ne dne hdr' pr desc cost by simp
qed

lemma rw_zant_rejects_invalid_id:
  assumes bad: "case fst (RWZantParser_extract_product_id (clean_cell (row ! 0))) of
                  None \<Rightarrow> True | Some pid \<Rightarrow> \<not> RWZantParser_validate_product_id pid"
  shows "RWZantParser_parse_table_row row = None"
proof -
  obtain p e where pe: "RWZantParser_extract_product_id (clean_cell (row ! 0)) = (p, e)"
    by (cases "RWZantParser_extract_product_id (clean_cell (row ! 0))") auto
  with bad have "p = None \<or> (\<exists>pid. p = Some pid \<and> \<not> RWZantParser_validate_product_id pid)"
    by (cases p) auto
  then show ?thesis
    unfolding RWZantParser_parse_table_row_def Let_def pe
    by (auto split: option.splits)
qed

text \<open>
  C6, as stated, fails for the RW Zant parser: the row \<open>ABC123 | BEEF CHUCK ROLL | $2.15\<close> has a
  valid description and a valid cost and a present identifier from which no numeric code can
  be extracted; the parser rejects the row instead of returning it under the sentinel.
\<close>

theorem rw_zant_rejects_counterexample:
  "BaseParser_is_valid_description ''BEEF CHUCK ROLL''
   \<and> BaseParser_clean_cost ''$2.15'' = Some ''$2.15''
   \<and> clean_cell (Some ''ABC123'') = ''ABC123''
   \<and> fst (RWZantParser_extract_product_id ''ABC123'') = None
   \<and> RWZantParser_parse_table_row [Some ''ABC123'', Some ''BEEF CHUCK ROLL'', Some ''$2.15''] = None"
proof -
  have 1: "BaseParser_is_valid_description ''BEEF CHUCK ROLL''" by code_simp
  have q: "re_search dollar_price_here ''$2.15'' = Some (''2'', Some ''15'')" by code_simp
  have 2: "BaseParser_clean_cost ''$2.15'' = Some ''$2.15''"
    unfolding BaseParser_clean_cost_def Let_def q by (simp add: cents_eval)
  have 3: "clean_cell (Some ''ABC123'') = ''ABC123''" by code_simp
  have 4: "fst (RWZantParser_extract_product_id ''ABC123'') = None" by code_simp
  have "case fst (RWZantParser_extract_product_id
                    (clean_cell ([Some ''ABC123'', Some ''BEEF CHUCK ROLL'', Some ''$2.15''] ! 0))) of
          None \<Rightarrow> True | Some pid \<Rightarrow> \<not> RWZantParser_validate_product_id pid"
    by (simp add: 3 4)
  then have 5: "RWZantParser_parse_table_row [Some ''ABC123'', Some ''BEEF CHUCK ROLL'', Some ''$2.15''] = None"
    by (rule rw_zant_rejects_invalid_id)
  from 1 2 3 4 5 show ?thesis by (intro conjI)
qed

text \<open>
  C6, amended: in the Kruse and Sons parser, a table row whose description and cost pass
  validation and whose identifier cell is present but yields no valid code is returned as a
  LineItem with the sentinel \<open>N/A\<close> as its identifier; in the RW Zant parser, a row whose
  identifier cell is present but yields no valid code is rejected (the parser returns null).
\<close>

theorem invalid_id_policy:
  "(3 \<le> length row
    \<and> clean_cell (row ! 0) \<noteq> []
    \<and> (case fst (KruseSonsParser_extract_product_id (clean_cell (row ! 0))) of
          None \<Rightarrow> True | Some pid \<Rightarrow> \<not> KruseSonsParser_validate_product_id pid)
    \<and> KruseSonsParser_is_valid_description (clean_cell (row ! 1))
    \<and> KruseSonsParser_clean_cost (clean_cell (last row)) = Some cost_cleaned
    \<longrightarrow> KruseSonsParser_parse_table_row row =
          Some \<lparr>item_id = ''N/A'', item_description = clean_cell (row ! 1), item_cost = cost_cleaned\<rparr>)
   \<and> (clean_cell (row' ! 0) \<noteq> []
      \<and> (case fst (RWZantParser_extract_product_id (clean_cell (row' ! 0))) of
            None \<Rightarrow> True | Some pid \<Rightarrow> \<not> RWZantParser_validate_product_id pid)
      \<longrightarrow> RWZantParser_parse_table_row row' = None)"
  using kruse_replaces_invalid_id [of row cost_cleaned] rw_zant_rejects_invalid_id [of row']
  by simp

theorem invalid_id_policy_witness:
  "3 \<le> length [Some ''AB12'', Some ''SLICED BACON'', Some ''12/1'', Some ''1.85'']
   \<and> clean_cell ([Some ''AB12'', Some ''SLICED BACON'', Some ''12/1'', Some ''1.85''] ! 0) \<noteq> []
   \<and> fst (KruseSonsParser_extract_product_id ''AB12'') = None
   \<and> KruseSonsParser_is_valid_description ''SLICED BACON''
   \<and> KruseSonsParser_clean_cost ''1.85'' = Some ''$1.85/LB''
   \<and> KruseSonsParser_parse_table_row [Some ''AB12'', Some ''SLICED BACON'', Some ''12/1'', Some ''1.85'']
       = Some \<lparr>item_id = ''N/A'', item_description = ''SLICED BACON'', item_cost = ''$1.85/LB''\<rparr>
   \<and> fst (RWZantParser_extract_product_id ''ABC123'') = None
   \<and> RWZantParser_parse_table_row [Some ''ABC123'', Some ''BEEF CHUCK ROLL'', Some ''$2.15''] = None"
proof -
  let ?k = "[Some ''AB12'', Some ''SLICED BACON'', Some ''12/1'', Some ''1.85'']"
  let ?z = "[Some ''ABC123'', Some ''BEEF CHUCK ROLL'', Some ''$2.15'']"
  have c0: "clean_cell (?k ! 0) = ''AB12''" by code_simp
  have c1: "clean_cell (?k ! 1) = ''SLICED BACON''" by code_simp
  have c3: "clean_cell (last ?k) = ''1.85''" by code_simp
  have z0: "clean_cell (?z ! 0) = ''ABC123''" by code_simp
  have k1: "3 \<le> length ?k" by simp
  have k2: "fst (KruseSonsParser_extract_product_id ''AB12'') = None" by code_simp
  have k3: "KruseSonsParser_is_valid_description ''SLICED BACON''" by code_simp
  have u: "upper (strip ''1.85'') = ''1.85''" by code_simp
  have d: "re_search decimal_here ''1.85'' = Some (''1'', Some ''85'')" by code_simp
  have k4: "KruseSonsParser_clean_cost ''1.85'' = Some ''$1.85/LB''"
    unfolding KruseSonsParser_clean_cost_def Let_def u d by (simp add: cents_eval)
  have z1: "fst (RWZantParser_extract_product_id ''ABC123'') = None" by code_simp
  note p = invalid_id_policy [of ?k "''$1.85/LB''" ?z]
  have kr: "KruseSonsParser_parse_table_row ?k
       = Some \<lparr>item_id = ''N/A'', item_description = ''SLICED BACON'', item_cost = ''$1.85/LB''\<rparr>"
    using conjunct1 [OF p] k1 k2 k3 k4 unfolding c0 c1 c3 by simp
  have rz: "RWZantParser_parse_table_row ?z = None"
    using conjunct2 [OF p] z1 unfolding z0 by simp
  have k0: "clean_cell (?k ! 0) \<noteq> []" unfolding c0 by simp
  from k1 k0 k2 k3 k4 kr z1 rz show ?thesis by (intro conjI)
qed

end
